theory Spec2Isabelle
  imports Complex_Main "HOL-Library.Word" "HOL-Library.AList" "HOL-Library.Sublist"
begin

unbundle bit_operations_syntax

section \<open>Python values, exceptions and the client object\<close>

text \<open>
  The client is the class \<open>UploadCare\<close> of \<open>uploadcare/uploadcare.py\<close>. Its arguments and
  the JSON payloads it reads are dynamically typed, so they are values of one datatype.

  \<^item> A Python \<open>str\<close> is a \<open>string\<close>: the bytes of its UTF-8 encoding, so that
    \<open>s.encode('utf-8')\<close> keeps the characters and only changes the type.
  \<^item> \<open>bytes\<close> and \<open>bytearray\<close> are lists of 8-bit words.
  \<^item> Python integers are unbounded: \<open>int\<close>. A \<open>float\<close> is the real number it denotes;
    NaN, the infinities and the rounding of integers beyond \<open>2^53\<close> are outside the model.
  \<^item> A \<open>dict\<close> with string keys is an association list in insertion order.
\<close>

type_synonym byte = "8 word"
type_synonym u32 = "32 word"

datatype pyval =
    PNone
  | PBool bool
  | PInt int
  | PFloat real
  | PStr string
  | PBytes "byte list"
  | PList "pyval list"
  | PDict "(string \<times> pyval) list"

type_synonym pydict = "(string \<times> pyval) list"

text \<open>
  The exceptions of \<open>uploadcare/exceptions.py\<close> and the built-in ones the code raises or
  runs into. \<open>ConnectionError\<close> is Python's built-in class (the module imports no other),
  carrying the response text.
\<close>

datatype error =
    ValueError string
  | MissingSecretKey
  | MissingExpireKwarg
  | InvalidDatetimeString pyval
  | ConnectionError string
  | NameError string
  | KeyError string
  | TypeError
  | AttributeError string
  | FileNotFoundError
  | IsADirectoryError
  | JSONDecodeError

text \<open>Truthiness, as \<open>if x\<close> and \<open>not x\<close> test it.\<close>

fun truthy :: "pyval \<Rightarrow> bool" where
  "truthy PNone = False"
| "truthy (PBool b) = b"
| "truthy (PInt i) = (i \<noteq> 0)"
| "truthy (PFloat x) = (x \<noteq> 0)"
| "truthy (PStr s) = (s \<noteq> [])"
| "truthy (PBytes b) = (b \<noteq> [])"
| "truthy (PList xs) = (xs \<noteq> [])"
| "truthy (PDict d) = (d \<noteq> [])"

text \<open>\<open>UploadCare.__init__\<close> stores its three arguments.\<close>

record client =
  pub_key :: string
  secret_key :: pyval
  api_url :: string

section \<open>The standard library's HMAC-SHA256\<close>

text \<open>
  \<open>hmac.new(k, m, hashlib.sha256).hexdigest()\<close> is library code. It is modelled from
  FIPS 180-4 (SHA-256) and RFC 2104 (HMAC) on 32-bit words, so that the signature is a
  computed value.
\<close>

definition rotr :: "nat \<Rightarrow> u32 \<Rightarrow> u32" where
  "rotr n x = (drop_bit n x) OR (push_bit (32 - n) x)"

definition Ch :: "u32 \<Rightarrow> u32 \<Rightarrow> u32 \<Rightarrow> u32" where
  "Ch x y z = (x AND y) XOR (NOT x AND z)"

definition Maj :: "u32 \<Rightarrow> u32 \<Rightarrow> u32 \<Rightarrow> u32" where
  "Maj x y z = (x AND y) XOR (x AND z) XOR (y AND z)"

definition Sigma0 :: "u32 \<Rightarrow> u32" where
  "Sigma0 x = rotr 2 x XOR rotr 13 x XOR rotr 22 x"

definition Sigma1 :: "u32 \<Rightarrow> u32" where
  "Sigma1 x = rotr 6 x XOR rotr 11 x XOR rotr 25 x"

definition sigma0 :: "u32 \<Rightarrow> u32" where
  "sigma0 x = rotr 7 x XOR rotr 18 x XOR drop_bit 3 x"

definition sigma1 :: "u32 \<Rightarrow> u32" where
  "sigma1 x = rotr 17 x XOR rotr 19 x XOR drop_bit 10 x"

definition sha256_K :: "u32 list" where
  "sha256_K = concat
    [[0x428a2f98, 0x71374491, 0xb5c0fbcf, 0xe9b5dba5, 0x3956c25b, 0x59f111f1, 0x923f82a4, 0xab1c5ed5],
     [0xd807aa98, 0x12835b01, 0x243185be, 0x550c7dc3, 0x72be5d74, 0x80deb1fe, 0x9bdc06a7, 0xc19bf174],
     [0xe49b69c1, 0xefbe4786, 0x0fc19dc6, 0x240ca1cc, 0x2de92c6f, 0x4a7484aa, 0x5cb0a9dc, 0x76f988da],
     [0x983e5152, 0xa831c66d, 0xb00327c8, 0xbf597fc7, 0xc6e00bf3, 0xd5a79147, 0x06ca6351, 0x14292967],
     [0x27b70a85, 0x2e1b2138, 0x4d2c6dfc, 0x53380d13, 0x650a7354, 0x766a0abb, 0x81c2c92e, 0x92722c85],
     [0xa2bfe8a1, 0xa81a664b, 0xc24b8b70, 0xc76c51a3, 0xd192e819, 0xd6990624, 0xf40e3585, 0x106aa070],
     [0x19a4c116, 0x1e376c08, 0x2748774c, 0x34b0bcb5, 0x391c0cb3, 0x4ed8aa4a, 0x5b9cca4f, 0x682e6ff3],
     [0x748f82ee, 0x78a5636f, 0x84c87814, 0x8cc70208, 0x90befffa, 0xa4506ceb, 0xbef9a3f7, 0xc67178f2]]"

type_synonym sha_state = "u32 \<times> u32 \<times> u32 \<times> u32 \<times> u32 \<times> u32 \<times> u32 \<times> u32"

definition sha256_init :: sha_state where
  "sha256_init =
    (0x6a09e667, 0xbb67ae85, 0x3c6ef372, 0xa54ff53a, 0x510e527f, 0x9b05688c, 0x1f83d9ab, 0x5be0cd19)"

definition be32 :: "byte list \<Rightarrow> u32" where
  "be32 bs = fold (\<lambda>b acc. push_bit 8 acc OR ucast b) bs 0"

fun words_of :: "byte list \<Rightarrow> u32 list" where
  "words_of (a # b # c # d # rest) = be32 [a, b, c, d] # words_of rest"
| "words_of _ = []"

fun extend_schedule :: "nat \<Rightarrow> u32 list \<Rightarrow> u32 list" where
  "extend_schedule 0 ws = ws"
| "extend_schedule (Suc n) ws =
     (let t = length ws in
      extend_schedule n
        (ws @ [sigma1 (ws ! (t - 2)) + ws ! (t - 7) + sigma0 (ws ! (t - 15)) + ws ! (t - 16)]))"

definition sha256_round :: "sha_state \<Rightarrow> u32 \<times> u32 \<Rightarrow> sha_state" where
  "sha256_round s kw =
     (case s of (a, b, c, d, e, f, g, h) \<Rightarrow>
        let t1 = h + Sigma1 e + Ch e f g + fst kw + snd kw;
            t2 = Sigma0 a + Maj a b c
        in (t1 + t2, a, b, c, d + t1, e, f, g))"

definition sha256_add :: "sha_state \<Rightarrow> sha_state \<Rightarrow> sha_state" where
  "sha256_add s t =
     (case s of (a, b, c, d, e, f, g, h) \<Rightarrow>
      case t of (a', b', c', d', e', f', g', h') \<Rightarrow>
        (a + a', b + b', c + c', d + d', e + e', f + f', g + g', h + h'))"

definition sha256_block :: "sha_state \<Rightarrow> byte list \<Rightarrow> sha_state" where
  "sha256_block s block =
     sha256_add s (foldl sha256_round s (zip sha256_K (extend_schedule 48 (words_of block))))"

definition be_bytes32 :: "u32 \<Rightarrow> byte list" where
  "be_bytes32 w = [ucast (drop_bit 24 w), ucast (drop_bit 16 w), ucast (drop_bit 8 w), ucast w]"

definition be_bytes64 :: "64 word \<Rightarrow> byte list" where
  "be_bytes64 w = map (\<lambda>i. ucast (drop_bit (56 - 8 * i) w)) [0..<8]"

definition sha256_pad :: "byte list \<Rightarrow> byte list" where
  "sha256_pad m =
     m @ [0x80] @ replicate ((119 - length m mod 64) mod 64) 0 @ be_bytes64 (of_nat (8 * length m))"

fun chunks64 :: "nat \<Rightarrow> byte list \<Rightarrow> byte list list" where
  "chunks64 0 bs = []"
| "chunks64 (Suc n) bs = take 64 bs # chunks64 n (drop 64 bs)"

definition state_bytes :: "sha_state \<Rightarrow> byte list" where
  "state_bytes s =
     (case s of (a, b, c, d, e, f, g, h) \<Rightarrow>
        concat (map be_bytes32 [a, b, c, d, e, f, g, h]))"

definition sha256 :: "byte list \<Rightarrow> byte list" where
  "sha256 m =
     (let p = sha256_pad m
      in state_bytes (foldl sha256_block sha256_init (chunks64 (length p div 64) p)))"

definition hmac_sha256 :: "byte list \<Rightarrow> byte list \<Rightarrow> byte list" where
  "hmac_sha256 key msg =
     (let k0 = (if length key > 64 then sha256 key else key);
          k = k0 @ replicate (64 - length k0) 0
      in sha256 (map (\<lambda>b. b XOR 0x5c) k @ sha256 (map (\<lambda>b. b XOR 0x36) k @ msg)))"

definition hex_digit :: "nat \<Rightarrow> char" where
  "hex_digit n = ''0123456789abcdef'' ! n"

definition is_lower_hex :: "char \<Rightarrow> bool" where
  "is_lower_hex c = (c \<in> set ''0123456789abcdef'')"

definition hexdigest :: "byte list \<Rightarrow> string" where
  "hexdigest bs = concat (map (\<lambda>b. [hex_digit (unat b div 16), hex_digit (unat b mod 16)]) bs)"

section \<open>Text\<close>

definition encode_utf8 :: "string \<Rightarrow> byte list" where
  "encode_utf8 s = map of_char s"

definition digit_char :: "nat \<Rightarrow> char" where
  "digit_char n = ''0123456789'' ! n"

fun digit_chars :: "nat \<Rightarrow> string" where
  "digit_chars n =
     (if n < 10 then [digit_char n] else digit_chars (n div 10) @ [digit_char (n mod 10)])"

declare digit_chars.simps [simp del]

text \<open>\<open>str(i)\<close> of an integer: decimal digits, a minus sign when negative.\<close>

definition str_int :: "int \<Rightarrow> string" where
  "str_int i = (if i < 0 then CHR ''-'' # digit_chars (nat (- i)) else digit_chars (nat i))"

section \<open>The signature\<close>

text \<open>
  \<open>generate_secure_signature(secret_key, expire)\<close>, lines 45 to 67. A key that is neither
  \<open>bytes\<close> nor \<open>bytearray\<close> is sent \<open>.encode('utf-8')\<close>, which only a \<open>str\<close> has.
\<close>

fun key_bytes :: "pyval \<Rightarrow> error + byte list" where
  "key_bytes (PBytes b) = Inr b"
| "key_bytes (PStr s) = Inr (encode_utf8 s)"
| "key_bytes _ = Inl (AttributeError ''encode'')"

definition generate_secure_signature :: "pyval \<Rightarrow> int \<Rightarrow> error + string" where
  "generate_secure_signature key expire =
     (let k = key; m = encode_utf8 (str_int expire) in
      case key_bytes k of
        Inl e \<Rightarrow> Inl e
      | Inr k \<Rightarrow> Inr (hexdigest (hmac_sha256 k m)))"

section \<open>Name lookup\<close>

text \<open>
  A name used in a function body is looked up in the function's locals, then in the
  module's globals, then in the built-ins; the body of the enclosing class is not
  searched. \<open>module_globals\<close> lists the names \<open>uploadcare.py\<close> binds at module level (its
  imports and the class), \<open>class_namespace\<close> the names bound in the body of
  \<open>class UploadCare\<close>. A call of a bare name that is in neither the module's globals nor
  the built-ins raises \<open>NameError\<close>.
\<close>

definition module_globals :: "string list" where
  "module_globals =
     [''hashlib'', ''hmac'', ''json'', ''mimetypes'', ''time'', ''Path'', ''Optional'', ''Union'',
      ''dateparser'', ''requests'', ''CaseInsensitiveDict'', ''InvalidDatetimeString'',
      ''MissingExpireKwarg'', ''MissingSecretKey'', ''UploadCare'']"

definition class_namespace :: "string list" where
  "class_namespace =
     [''__init__'', ''generate_secure_signature'', ''_secure_expire_signature'',
      ''_check_response'', ''_input_identity'', ''check_status'', ''upload'', ''info'',
      ''start_multipart'', ''upload_parts'', ''complete_multipart'', ''create_group'',
      ''group_info'']"

definition global_call :: "string \<Rightarrow> error + 'a \<Rightarrow> error + 'a" where
  "global_call name result =
     (if name \<in> set module_globals then result else Inl (NameError name))"

section \<open>The world outside the client\<close>

text \<open>
  A request as \<open>requests.post(url, data=..., files=...)\<close> sends it, and the three things the
  client reads of a response: \<open>status_code\<close>, \<open>text\<close> (\<open>text_body\<close>) and \<open>json()\<close>
  (\<open>json_body\<close>, \<open>None\<close> when the body is not JSON and \<open>json()\<close> raises).
\<close>

record request =
  req_method :: string
  req_url :: string
  req_data :: pydict
  req_files :: "(string \<times> string \<times> byte list \<times> string option) list"

record response =
  status_code :: int
  text_body :: string
  json_body :: "pyval option"

datatype fsnode = File "byte list" | Dir

text \<open>
  What the client's calls into its libraries and the operating system answer:
  \<^item> \<open>time_time\<close>: the reading of \<open>time.time()\<close>;
  \<^item> \<open>dateparser_parse s\<close>: \<open>time.mktime(d.timetuple())\<close> of the datetime \<open>d\<close> that
    \<open>dateparser.parse(s)\<close> returns, \<open>None\<close> when it returns \<open>None\<close>;
  \<^item> \<open>filesystem\<close>: what a path names;
  \<^item> \<open>guess_type\<close>: \<open>mimetypes.guess_type(name)[0]\<close>;
  \<^item> \<open>transport n r\<close>: the server's answer to request \<open>r\<close>, sent after \<open>n\<close> earlier
    requests;
  \<^item> \<open>py_repr\<close>: how an f-string renders a float, bytes, a list or a dict.
\<close>

record environment =
  time_time :: real
  dateparser_parse :: "string \<Rightarrow> real option"
  filesystem :: "string \<Rightarrow> fsnode option"
  guess_type :: "string \<Rightarrow> string option"
  transport :: "nat \<Rightarrow> request \<Rightarrow> response"
  py_repr :: "pyval \<Rightarrow> string"

text \<open>
  The effects of the client are the requests it sends and the pauses it takes; a run
  threads the list of them, oldest first.
\<close>

datatype event = Call request | Sleep real

fun is_call :: "event \<Rightarrow> bool" where
  "is_call (Call r) = True"
| "is_call (Sleep d) = False"

definition ncalls :: "event list \<Rightarrow> nat" where
  "ncalls w = length (filter is_call w)"

definition requests_post :: "environment \<Rightarrow> request \<Rightarrow> event list \<Rightarrow> response \<times> event list" where
  "requests_post env r w = (transport env (ncalls w) r, w @ [Call r])"

definition time_sleep :: "real \<Rightarrow> event list \<Rightarrow> event list" where
  "time_sleep d w = w @ [Sleep d]"

section \<open>Dictionaries, subscripts, formatting, paths\<close>

text \<open>\<open>d.update(items)\<close>, and \<open>{**d, **items}\<close>: a key already present keeps its place and takes
  the new value, a new key goes to the end.\<close>

definition dict_update :: "pydict \<Rightarrow> pydict \<Rightarrow> pydict" where
  "dict_update d items = fold (\<lambda>(k, v). AList.update k v) items d"

text \<open>\<open>x[k]\<close> with a string \<open>k\<close>, and \<open>x.get(k)\<close>.\<close>

fun getitem :: "pyval \<Rightarrow> string \<Rightarrow> error + pyval" where
  "getitem (PDict d) k = (case map_of d k of None \<Rightarrow> Inl (KeyError k) | Some v \<Rightarrow> Inr v)"
| "getitem _ k = Inl TypeError"

fun dict_get :: "pyval \<Rightarrow> string \<Rightarrow> error + pyval" where
  "dict_get (PDict d) k = (case map_of d k of None \<Rightarrow> Inr PNone | Some v \<Rightarrow> Inr v)"
| "dict_get _ k = Inl (AttributeError ''get'')"

text \<open>\<open>str(x)\<close>, which is also how an f-string renders \<open>{x}\<close>.\<close>

fun py_str :: "environment \<Rightarrow> pyval \<Rightarrow> string" where
  "py_str env (PStr s) = s"
| "py_str env (PInt i) = str_int i"
| "py_str env PNone = ''None''"
| "py_str env (PBool b) = (if b then ''True'' else ''False'')"
| "py_str env v = py_repr env v"

text \<open>\<open>needle in haystack\<close> on strings.\<close>

fun contains :: "string \<Rightarrow> string \<Rightarrow> bool" where
  "contains needle [] = (needle = [])"
| "contains needle (c # cs) = (prefix needle (c # cs) \<or> contains needle cs)"

text \<open>
  \<open>Path(p).name\<close> on a POSIX path: the last component, where empty components and
  \<open>.\<close> components do not count; the empty string when there is none.
\<close>

fun split_path :: "string \<Rightarrow> string list" where
  "split_path [] = [[]]"
| "split_path (c # cs) =
     (if c = CHR ''/'' then [] # split_path cs
      else (case split_path cs of [] \<Rightarrow> [[c]] | p # ps \<Rightarrow> (c # p) # ps))"

definition path_parts :: "string \<Rightarrow> string list" where
  "path_parts p = filter (\<lambda>s. s \<noteq> [] \<and> s \<noteq> ''.'') (split_path p)"

definition path_name :: "string \<Rightarrow> string" where
  "path_name p = (if path_parts p = [] then [] else last (path_parts p))"

section \<open>The methods of the client\<close>

subsection \<open>\<open>_secure_expire_signature\<close>, lines 69 to 89\<close>

fun isinstance_float_int_str :: "pyval \<Rightarrow> bool" where
  "isinstance_float_int_str (PFloat x) = True"
| "isinstance_float_int_str (PInt i) = True"
| "isinstance_float_int_str (PBool b) = True"
| "isinstance_float_int_str (PStr s) = True"
| "isinstance_float_int_str _ = False"

text \<open>\<open>int(x)\<close> of a float truncates towards zero.\<close>

definition py_int :: "real \<Rightarrow> int" where
  "py_int x = (if x < 0 then \<lceil>x\<rceil> else \<lfloor>x\<rfloor>)"

text \<open>The number a non-string \<open>expire\<close> stands for in \<open>expire - time.time()\<close>; \<open>bool\<close> is a
  subclass of \<open>int\<close>.\<close>

fun expire_number :: "environment \<Rightarrow> pyval \<Rightarrow> error + real" where
  "expire_number env (PStr s) =
     (case dateparser_parse env s of
        None \<Rightarrow> Inl (InvalidDatetimeString PNone)
      | Some t \<Rightarrow> Inr t)"
| "expire_number env (PInt i) = Inr (of_int i)"
| "expire_number env (PFloat x) = Inr x"
| "expire_number env (PBool b) = Inr (if b then 1 else 0)"
| "expire_number env _ = Inl TypeError"

text \<open>
  Lines 71 to 87: the checks and the value of \<open>expire\<close> at line 87. The exception of line
  82 is built from \<open>expire\<close> after line 80 has rebound it, that is from \<open>None\<close>.
\<close>

definition expire_seconds :: "environment \<Rightarrow> client \<Rightarrow> pyval \<Rightarrow> error + int" where
  "expire_seconds env c expire =
     (if \<not> isinstance_float_int_str expire then
        Inl (ValueError (''`expire` value must be a float or a string representing date '' @
                         ''and/or time in a recognizably valid format.''))
      else if \<not> truthy (secret_key c) then Inl MissingSecretKey
      else (case expire_number env expire of
              Inl e \<Rightarrow> Inl e
            | Inr t \<Rightarrow>
                if t - time_time env < 0 then
                  Inl (ValueError ''Expire timestamp cannot be in the past!'')
                else Inr (py_int t)))"

text \<open>
  Lines 88 and 89. The call at line 88 is of the bare name \<open>generate_secure_signature\<close>,
  which the module binds only inside the class body.
\<close>

definition secure_expire_signature :: "environment \<Rightarrow> client \<Rightarrow> pyval \<Rightarrow> error + pydict" where
  "secure_expire_signature env c expire =
     (case expire_seconds env c expire of
        Inl e \<Rightarrow> Inl e
      | Inr ex \<Rightarrow>
          (case global_call ''generate_secure_signature''
                  (generate_secure_signature (secret_key c) ex) of
             Inl e \<Rightarrow> Inl e
           | Inr signature \<Rightarrow> Inr [(''expire'', PInt ex), (''signature'', PStr signature)]))"

subsection \<open>\<open>_check_response\<close>, lines 91 to 97\<close>

definition check_response :: "client \<Rightarrow> response \<Rightarrow> error + pyval" where
  "check_response c resp =
     (if status_code resp \<noteq> 200 then
        (if contains ''`signature` is required'' (text_body resp) \<and> \<not> truthy (secret_key c) then
           Inl MissingSecretKey
         else Inl (ConnectionError (text_body resp)))
      else (case json_body resp of None \<Rightarrow> Inl JSONDecodeError | Some payload \<Rightarrow> Inr payload))"

subsection \<open>\<open>_input_identity\<close>, lines 99 to 109\<close>

definition input_identity :: "environment \<Rightarrow> client \<Rightarrow> string \<Rightarrow> error + bool \<times> string" where
  "input_identity env c input =
     (if filesystem env input \<noteq> None then Inr (False, api_url c @ ''/base/'')
      else if \<not> prefix ''http'' input then
        Inl (ValueError ''Input is neither an existing file or a valid URL!'')
      else Inr (True, api_url c @ ''/from_url/''))"

subsection \<open>\<open>check_status\<close>, lines 111 to 136\<close>

text \<open>
  The loop of lines 126 to 133 has no bound: it ends only when a response says
  \<open>success\<close>, \<open>error\<close> or \<open>unknown\<close>, or when reading a response raises. \<open>None\<close> is a loop
  that never ends. The loop leaves with the last response in \<open>status_res\<close>.
\<close>

definition status_request :: "string \<Rightarrow> pyval \<Rightarrow> request" where
  "status_request status_endpoint token =
     \<lparr>req_method = ''POST'', req_url = status_endpoint, req_data = [(''token'', token)],
      req_files = []\<rparr>"

partial_function (option) check_status_loop ::
  "environment \<Rightarrow> string \<Rightarrow> pyval \<Rightarrow> event list \<Rightarrow> ((error + response) \<times> event list) option"
where
  "check_status_loop env status_endpoint token w =
     (case requests_post env (status_request status_endpoint token) w of
        (status_res, w1) \<Rightarrow>
          (case json_body status_res of
             None \<Rightarrow> Some (Inl JSONDecodeError, w1)
           | Some body \<Rightarrow>
               (case getitem body ''status'' of
                  Inl e \<Rightarrow> Some (Inl e, w1)
                | Inr status \<Rightarrow>
                    if status = PStr ''success'' then Some (Inr status_res, w1)
                    else if status = PStr ''error'' \<or> status = PStr ''unknown'' then
                      Some (Inl (ConnectionError (text_body status_res)), w1)
                    else check_status_loop env status_endpoint token (time_sleep 0.5 w1))))"

definition wait_result :: "response \<Rightarrow> error + pyval \<times> pyval" where
  "wait_result status_res =
     (case json_body status_res of
        None \<Rightarrow> Inl JSONDecodeError
      | Some wait_res \<Rightarrow>
          (case getitem wait_res ''filename'' of
             Inl e \<Rightarrow> Inl e
           | Inr filename \<Rightarrow>
               (case getitem wait_res ''uuid'' of
                  Inl e \<Rightarrow> Inl e
                | Inr uuid \<Rightarrow> Inr (filename, uuid))))"

definition check_status ::
  "environment \<Rightarrow> client \<Rightarrow> pyval \<Rightarrow> event list \<Rightarrow> ((error + pyval \<times> pyval) \<times> event list) option"
where
  "check_status env c token w =
     (case check_status_loop env (api_url c @ ''/from_url/status/'') token w of
        None \<Rightarrow> None
      | Some (Inl e, w') \<Rightarrow> Some (Inl e, w')
      | Some (Inr status_res, w') \<Rightarrow> Some (wait_result status_res, w'))"

text \<open>
  Vocabulary for the loop: the \<open>status\<close> field of a poll response, a response that keeps
  the loop going, and the requests and pauses of \<open>n\<close> such polls.
\<close>

definition poll_status :: "response \<Rightarrow> pyval option" where
  "poll_status r = (case json_body r of Some (PDict d) \<Rightarrow> map_of d ''status'' | _ \<Rightarrow> None)"

definition still_pending :: "response \<Rightarrow> bool" where
  "still_pending r =
     (case poll_status r of
        None \<Rightarrow> False
      | Some s \<Rightarrow> s \<noteq> PStr ''success'' \<and> s \<noteq> PStr ''error'' \<and> s \<noteq> PStr ''unknown'')"

definition pending_polls :: "request \<Rightarrow> nat \<Rightarrow> event list" where
  "pending_polls r n = concat (replicate n [Call r, Sleep 0.5])"

subsection \<open>\<open>upload\<close>, lines 138 to 207\<close>

text \<open>\<open>open(_input, 'rb').read()\<close>, lines 171 and 172.\<close>

definition read_file :: "environment \<Rightarrow> string \<Rightarrow> error + byte list" where
  "read_file env path =
     (case filesystem env path of
        Some (File fdata) \<Rightarrow> Inr fdata
      | Some Dir \<Rightarrow> Inl IsADirectoryError
      | None \<Rightarrow> Inl FileNotFoundError)"

text \<open>
  Lines 174 to 186, the form fields. In the dict display of line 176 the entries of
  \<open>**kwargs\<close> come last. \<open>metadata\<close> is \<open>None\<close> or a dict with string keys.
\<close>

definition metadata_items :: "pydict option \<Rightarrow> pydict" where
  "metadata_items metadata =
     (case metadata of
        None \<Rightarrow> []
      | Some md \<Rightarrow> map (\<lambda>(k, v). (''metadata['' @ k @ '']'', v)) md)"

definition upload_data ::
  "environment \<Rightarrow> client \<Rightarrow> bool \<Rightarrow> string \<Rightarrow> pyval \<Rightarrow> pydict option \<Rightarrow> pyval \<Rightarrow> pydict
     \<Rightarrow> error + pydict"
where
  "upload_data env c is_url input store metadata expire kwargs =
     (let pub_k = (if is_url then ''pub_key'' else ''UPLOADCARE_PUB_KEY'');
          data = dict_update
                   [(pub_k, PStr (pub_key c)), (''UPLOADCARE_STORE'', PStr (py_str env store))]
                   kwargs;
          data = (if is_url then dict_update data [(''source_url'', PStr input)] else data);
          data = dict_update data (metadata_items metadata)
      in if truthy expire then
           (case secure_expire_signature env c expire of
              Inl e \<Rightarrow> Inl e
            | Inr secure \<Rightarrow> Inr (dict_update data secure))
         else Inr data)"

definition cdn_url :: "environment \<Rightarrow> pyval \<Rightarrow> pyval \<Rightarrow> string" where
  "cdn_url env uuid fname = ''https://ucarecdn.com/'' @ py_str env uuid @ ''/'' @ py_str env fname"

definition upload_request ::
  "environment \<Rightarrow> bool \<Rightarrow> string \<Rightarrow> pydict \<Rightarrow> string \<Rightarrow> byte list \<Rightarrow> request"
where
  "upload_request env is_url endpoint data fname fdata =
     (let content_type = guess_type env fname in
      if is_url then
        \<lparr>req_method = ''POST'', req_url = endpoint, req_data = data, req_files = []\<rparr>
      else
        \<lparr>req_method = ''POST'', req_url = endpoint, req_data = data,
         req_files = [(''file'', fname, fdata, content_type)]\<rparr>)"

text \<open>Lines 199 to 207, from the validated payload to the URL.\<close>

definition upload_result ::
  "environment \<Rightarrow> client \<Rightarrow> bool \<Rightarrow> string \<Rightarrow> pyval \<Rightarrow> event list
     \<Rightarrow> ((error + string) \<times> event list) option"
where
  "upload_result env c is_url fname res_json w =
     (if \<not> is_url then
        (case getitem res_json ''file'' of
           Inl e \<Rightarrow> Some (Inl e, w)
         | Inr uuid \<Rightarrow> Some (Inr (cdn_url env uuid (PStr fname)), w))
      else
        (case dict_get res_json ''token'' of
           Inl e \<Rightarrow> Some (Inl e, w)
         | Inr t \<Rightarrow>
             if truthy t then
               (case getitem res_json ''token'' of
                  Inl e \<Rightarrow> Some (Inl e, w)
                | Inr token \<Rightarrow>
                    (case check_status env c token w of
                       None \<Rightarrow> None
                     | Some (Inl e, w') \<Rightarrow> Some (Inl e, w')
                     | Some (Inr (fname', uuid), w') \<Rightarrow> Some (Inr (cdn_url env uuid fname'), w')))
             else
               (case getitem res_json ''filename'' of
                  Inl e \<Rightarrow> Some (Inl e, w)
                | Inr fname' \<Rightarrow>
                    (case getitem res_json ''uuid'' of
                       Inl e \<Rightarrow> Some (Inl e, w)
                     | Inr uuid \<Rightarrow> Some (Inr (cdn_url env uuid fname'), w)))))"

definition upload ::
  "environment \<Rightarrow> client \<Rightarrow> string \<Rightarrow> pyval \<Rightarrow> pydict option \<Rightarrow> pyval \<Rightarrow> pydict \<Rightarrow> event list
     \<Rightarrow> ((error + string) \<times> event list) option"
where
  "upload env c input store metadata expire kwargs w =
     (if truthy (secret_key c) \<and> \<not> truthy expire then Some (Inl MissingExpireKwarg, w)
      else
        let fname = path_name input in
        case input_identity env c input of
          Inl e \<Rightarrow> Some (Inl e, w)
        | Inr (is_url, endpoint) \<Rightarrow>
            (case (if \<not> is_url then read_file env input else Inr []) of
               Inl e \<Rightarrow> Some (Inl e, w)
             | Inr fdata \<Rightarrow>
                 (case upload_data env c is_url input store metadata expire kwargs of
                    Inl e \<Rightarrow> Some (Inl e, w)
                  | Inr data \<Rightarrow>
                      (case requests_post env
                              (upload_request env is_url endpoint data fname fdata) w of
                         (res, w1) \<Rightarrow>
                           (case check_response c res of
                              Inl e \<Rightarrow> Some (Inl e, w1)
                            | Inr res_json \<Rightarrow> upload_result env c is_url fname res_json w1)))))"

subsection \<open>\<open>start_multipart\<close>, lines 234 to 274\<close>

definition start_multipart ::
  "environment \<Rightarrow> client \<Rightarrow> string \<Rightarrow> int \<Rightarrow> pyval \<Rightarrow> pydict \<Rightarrow> event list
     \<Rightarrow> (error + pyval) \<times> event list"
where
  "start_multipart env c filename nbytes expire kwargs w =
     (if truthy (secret_key c) \<and> \<not> truthy expire then (Inl MissingExpireKwarg, w)
      else
        let endpoint = api_url c @ ''/multipart/start/'';
            data = dict_update
                     [(''UPLOADCARE_PUB_KEY'', PStr (pub_key c)), (''filename'', PStr filename),
                      (''size'', PInt nbytes)]
                     kwargs
        in case (if truthy expire then
                   (case secure_expire_signature env c expire of
                      Inl e \<Rightarrow> Inl e
                    | Inr secure \<Rightarrow> Inr (dict_update data secure))
                 else Inr data) of
             Inl e \<Rightarrow> (Inl e, w)
           | Inr data \<Rightarrow>
               (case requests_post env
                       \<lparr>req_method = ''POST'', req_url = endpoint, req_data = data,
                        req_files = []\<rparr> w of
                  (res, w1) \<Rightarrow> (check_response c res, w1)))"

subsection \<open>\<open>create_group\<close>, lines 306 to 338\<close>

definition files_items :: "pyval list \<Rightarrow> pydict" where
  "files_items files =
     map (\<lambda>(n, file). (''files['' @ str_int (int n) @ '']'', file)) (enumerate 0 files)"

definition create_group_data ::
  "environment \<Rightarrow> client \<Rightarrow> pyval list \<Rightarrow> pyval \<Rightarrow> pydict \<Rightarrow> error + pydict"
where
  "create_group_data env c files expire kwargs =
     (let data = dict_update [(''pub_key'', PStr (pub_key c))] kwargs;
          data = dict_update data (files_items files)
      in if truthy expire then
           (case secure_expire_signature env c expire of
              Inl e \<Rightarrow> Inl e
            | Inr secure \<Rightarrow> Inr (dict_update data secure))
         else Inr data)"

definition create_group ::
  "environment \<Rightarrow> client \<Rightarrow> pyval list \<Rightarrow> pyval \<Rightarrow> pydict \<Rightarrow> event list
     \<Rightarrow> (error + pyval) \<times> event list"
where
  "create_group env c files expire kwargs w =
     (if truthy (secret_key c) \<and> \<not> truthy expire then (Inl MissingExpireKwarg, w)
      else
        let endpoint = api_url c @ ''/group/'' in
        case create_group_data env c files expire kwargs of
          Inl e \<Rightarrow> (Inl e, w)
        | Inr data \<Rightarrow>
            (case requests_post env
                    \<lparr>req_method = ''POST'', req_url = endpoint, req_data = data,
                     req_files = []\<rparr> w of
               (res, w1) \<Rightarrow> (check_response c res, w1)))"

section \<open>Test fixtures\<close>

text \<open>
  A client with a secret key and one without, a transport that answers from a script
  (and with status 500 once the script is used up), and an environment whose clock reads
  1700000000 and whose file system holds \<open>photo.jpg\<close>.
\<close>

definition signing_client :: client where
  "signing_client =
     \<lparr>pub_key = ''demopublickey'', secret_key = PStr ''demosecretkey'',
      api_url = ''https://upload.uploadcare.com''\<rparr>"

definition plain_client :: client where
  "plain_client =
     \<lparr>pub_key = ''demopublickey'', secret_key = PNone,
      api_url = ''https://upload.uploadcare.com''\<rparr>"

definition scripted :: "response list \<Rightarrow> nat \<Rightarrow> request \<Rightarrow> response" where
  "scripted rs n r =
     (if n < length rs then rs ! n
      else \<lparr>status_code = 500, text_body = ''script exhausted'', json_body = None\<rparr>)"

definition test_env :: "response list \<Rightarrow> environment" where
  "test_env rs =
     \<lparr>time_time = 1700000000,
      dateparser_parse = (\<lambda>s. if s = ''2030-01-01'' then Some 1893456000 else None),
      filesystem = (\<lambda>p. if p = ''photo.jpg'' then Some (File [0xff, 0xd8, 0xff]) else None),
      guess_type = (\<lambda>n. if n = ''photo.jpg'' then Some ''image/jpeg'' else None),
      transport = scripted rs,
      py_repr = (\<lambda>v. ''<repr>'')\<rparr>"

definition signature_required_response :: response where
  "signature_required_response =
     \<lparr>status_code = 400, text_body = ''detail: `signature` is required.'',
      json_body = Some (PDict [(''detail'', PStr ''`signature` is required.'')])\<rparr>"

definition json_response :: "pydict \<Rightarrow> response" where
  "json_response d = \<lparr>status_code = 200, text_body = ''<json>'', json_body = Some (PDict d)\<rparr>"

definition pending_response :: response where
  "pending_response = json_response [(''status'', PStr ''pending'')]"

definition success_response :: response where
  "success_response =
     json_response
       [(''status'', PStr ''success''), (''filename'', PStr ''a.png''), (''uuid'', PStr ''U1'')]"

definition error_response :: response where
  "error_response = json_response [(''status'', PStr ''error'')]"

definition poll_request :: request where
  "poll_request =
     status_request ''https://upload.uploadcare.com/from_url/status/'' (PStr ''TOKEN'')"

section \<open>Properties of the signature\<close>

lemma length_state_bytes: "length (state_bytes s) = 32"
  by (simp add: state_bytes_def be_bytes32_def split: prod.splits)

lemma length_sha256: "length (sha256 m) = 32"
  by (simp add: sha256_def Let_def length_state_bytes)

lemma length_hmac_sha256: "length (hmac_sha256 k m) = 32"
  by (simp add: hmac_sha256_def Let_def length_sha256)

lemma length_hexdigest: "length (hexdigest bs) = 2 * length bs"
  unfolding hexdigest_def by (induction bs) simp_all

lemma hex_digit_lower: "n < 16 \<Longrightarrow> is_lower_hex (hex_digit n)"
  unfolding hex_digit_def is_lower_hex_def by (rule nth_mem) simp

lemma hexdigest_lower: "list_all is_lower_hex (hexdigest bs)"
proof (induction bs)
  case Nil
  show ?case by (simp add: hexdigest_def)
next
  case (Cons b bs)
  have "unat b < 256"
    using unsigned_less [of b, where ?'a = nat] by simp
  then have hi: "unat b div 16 < 16" and lo: "unat b mod 16 < 16"
    by simp_all
  have "is_lower_hex (hex_digit (unat b div 16))"
    and "is_lower_hex (hex_digit (unat b mod 16))"
    by (simp_all add: hi lo hex_digit_lower)
  with Cons show ?case
    unfolding hexdigest_def by simp
qed

text \<open>
  The model of SHA-256 on the test vector of FIPS 180-4 for the message \<open>abc\<close>.
\<close>

lemma sha256_abc:
  "hexdigest (sha256 (encode_utf8 ''abc'')) =
   ''ba7816bf8f01cfea414140de5dae2223b00361a396177a9cb410ff61f20015ad''"
  by code_simp

text \<open>
  C9. For a key given as text \<open>k\<close> or as bytes \<open>b\<close>, and every integer \<open>e\<close>,
  \<open>generate_secure_signature\<close> returns the hexadecimal rendering of the HMAC-SHA256 of
  the decimal string of \<open>e\<close>, keyed by the UTF-8 bytes of \<open>k\<close> or by \<open>b\<close>; such a rendering
  has 64 characters, all of them in \<open>0123456789abcdef\<close> (\<open>is_lower_hex\<close>). The function is
  a function of its two arguments only (no clock, no state), so equal inputs give equal
  results.
\<close>

theorem generate_secure_signature_hmac_hex:
  "generate_secure_signature (PStr k) e =
     Inr (hexdigest (hmac_sha256 (encode_utf8 k) (encode_utf8 (str_int e)))) \<and>
   generate_secure_signature (PBytes b) e =
     Inr (hexdigest (hmac_sha256 b (encode_utf8 (str_int e)))) \<and>
   length (hexdigest (hmac_sha256 b m)) = 64 \<and>
   list_all is_lower_hex (hexdigest (hmac_sha256 b m))"
  by (simp add: generate_secure_signature_def length_hexdigest length_hmac_sha256
      hexdigest_lower)

theorem generate_secure_signature_hmac_hex_witness:
  "generate_secure_signature (PStr ''demosecretkey'') 1700003600 =
     Inr (hexdigest (hmac_sha256 (encode_utf8 ''demosecretkey'') (encode_utf8 ''1700003600''))) \<and>
   generate_secure_signature (PBytes [0x6b, 0x65, 0x79]) (- 15) =
     Inr (hexdigest (hmac_sha256 [0x6b, 0x65, 0x79] (encode_utf8 ''-15''))) \<and>
   length (hexdigest (hmac_sha256 [0x6b, 0x65, 0x79] (encode_utf8 ''-15''))) = 64"
  using generate_secure_signature_hmac_hex [of "''demosecretkey''" 1700003600 "[0x6b, 0x65, 0x79]"
      "encode_utf8 ''-15''"]
    generate_secure_signature_hmac_hex [of "''demosecretkey''" "- 15" "[0x6b, 0x65, 0x79]"
      "encode_utf8 ''-15''"]
  by (simp add: str_int_def digit_chars.simps digit_char_def)

section \<open>Signing: \<open>_secure_expire_signature\<close>\<close>

lemma generate_secure_signature_scope:
  "''generate_secure_signature'' \<in> set class_namespace \<and>
   ''generate_secure_signature'' \<notin> set module_globals"
  by (simp add: class_namespace_def module_globals_def)

lemma global_call_generate_secure_signature:
  "global_call ''generate_secure_signature'' r = Inl (NameError ''generate_secure_signature'')"
  by (simp add: global_call_def module_globals_def)

lemma secure_expire_signature_no_result:
  "secure_expire_signature env c expire \<noteq> Inr secure"
  by (simp add: secure_expire_signature_def global_call_generate_secure_signature
      split: sum.splits)

lemma py_int_of_int: "py_int (of_int i) = i"
  by (simp add: py_int_def)

lemma py_int_numeral: "py_int (numeral n) = numeral n"
  by (simp add: py_int_def)

lemma expire_number_isinstance:
  "expire_number env expire = Inr t \<Longrightarrow> isinstance_float_int_str expire"
  by (cases expire) simp_all

text \<open>
  C1. The claim: with a secret key and a valid \<open>expire\<close>, \<open>_secure_expire_signature\<close>
  returns \<open>{expire, signature}\<close>. The code does not: for the client with secret key
  \<open>demosecretkey\<close>, the clock at 1700000000 and \<open>expire = 1700003600\<close>, lines 71 to 87
  pass and give the integer 1700003600, and line 88 then raises \<open>NameError\<close>, because
  \<open>generate_secure_signature\<close> is bound in the class body and called as a global.
\<close>

theorem secure_expire_signature_NameError:
  "truthy (secret_key signing_client) \<and>
   time_time (test_env []) = 1700000000 \<and>
   expire_seconds (test_env []) signing_client (PInt 1700003600) = Inr 1700003600 \<and>
   secure_expire_signature (test_env []) signing_client (PInt 1700003600) =
     Inl (NameError ''generate_secure_signature'')"
  by (simp add: secure_expire_signature_def expire_seconds_def signing_client_def test_env_def
      global_call_generate_secure_signature py_int_numeral)

text \<open>
  C2, as stated, fails at the boundary: an \<open>expire\<close> equal to the clock's reading is not
  strictly after now, and line 84 (\<open>expire - time.time() < 0\<close>) lets it pass. No
  \<open>ValueError\<close> is raised, by lines 71 to 87 or by the method as a whole.
\<close>

theorem expire_equal_to_now_not_rejected:
  "time_time (test_env []) = 1700000000 \<and>
   expire_seconds (test_env []) signing_client (PInt 1700000000) = Inr 1700000000 \<and>
   secure_expire_signature (test_env []) signing_client (PInt 1700000000) =
     Inl (NameError ''generate_secure_signature'')"
  by (simp add: secure_expire_signature_def expire_seconds_def signing_client_def test_env_def
      global_call_generate_secure_signature py_int_numeral)

text \<open>
  C2, amended. With a secret key set and an \<open>expire\<close> that is a number \<open>t\<close> or a string that
  parses to the instant \<open>t\<close>, the resolution of lines 71 to 87 rejects \<open>t\<close> with
  \<open>ValueError\<close> exactly when \<open>t\<close> is strictly before now; every other \<open>t\<close>, now included,
  passes and is truncated to integer seconds. The whole method raises that
  \<open>ValueError\<close> in exactly the same case.
\<close>

theorem expire_seconds_rejects_past_only:
  assumes "truthy (secret_key c)" and "expire_number env expire = Inr t"
  shows "expire_seconds env c expire =
           (if t < time_time env then Inl (ValueError ''Expire timestamp cannot be in the past!'')
            else Inr (py_int t)) \<and>
         (secure_expire_signature env c expire =
            Inl (ValueError ''Expire timestamp cannot be in the past!'')) = (t < time_time env)"
  using assms expire_number_isinstance [OF assms(2)]
  by (simp add: expire_seconds_def secure_expire_signature_def
      global_call_generate_secure_signature)

theorem expire_seconds_rejects_past_only_witness:
  "time_time (test_env []) = 1700000000 \<and>
   expire_seconds (test_env []) signing_client (PInt (1700000000 - 1)) =
     Inl (ValueError ''Expire timestamp cannot be in the past!'') \<and>
   expire_seconds (test_env []) signing_client (PInt (1700000000 + 3600)) =
     Inr (1700000000 + 3600) \<and>
   expire_seconds (test_env []) signing_client (PFloat 1700000000.75) = Inr 1700000000 \<and>
   expire_seconds (test_env []) signing_client (PStr ''2030-01-01'') = Inr 1893456000"
proof -
  have k: "truthy (secret_key signing_client)"
    by (simp add: signing_client_def)
  have n: "time_time (test_env []) = 1700000000"
    by (simp add: test_env_def)
  have a: "expire_number (test_env []) (PInt (1700000000 - 1)) = Inr 1699999999"
    by simp
  have b: "expire_number (test_env []) (PInt (1700000000 + 3600)) = Inr 1700003600"
    by simp
  have c: "expire_number (test_env []) (PFloat 1700000000.75) = Inr 1700000000.75"
    by simp
  have d: "expire_number (test_env []) (PStr ''2030-01-01'') = Inr 1893456000"
    by (simp add: test_env_def)
  show ?thesis
    using expire_seconds_rejects_past_only [OF k a] expire_seconds_rejects_past_only [OF k b]
      expire_seconds_rejects_past_only [OF k c] expire_seconds_rejects_past_only [OF k d]
    by (simp add: n py_int_def)
qed

section \<open>Response validation: \<open>_check_response\<close>\<close>

text \<open>
  C5. \<open>_check_response\<close> returns a payload exactly when the status code is 200 (OK) and
  the payload is what \<open>resp.json()\<close> parsed, unmodified. So a response with any other
  status code never yields a payload: the result is an error.
\<close>

theorem check_response_payload_iff:
  "(check_response c resp = Inr payload) =
     (status_code resp = 200 \<and> json_body resp = Some payload)"
  by (simp add: check_response_def split: option.splits)

theorem check_response_payload_iff_witness:
  "check_response plain_client (json_response [(''file'', PStr ''UUID123'')]) =
     Inr (PDict [(''file'', PStr ''UUID123'')]) \<and>
   check_response plain_client signature_required_response \<noteq>
     Inr (PDict [(''detail'', PStr ''`signature` is required.'')])"
  using check_response_payload_iff
      [of plain_client "json_response [(''file'', PStr ''UUID123'')]"
        "PDict [(''file'', PStr ''UUID123'')]"]
    check_response_payload_iff
      [of plain_client signature_required_response
        "PDict [(''detail'', PStr ''`signature` is required.'')]"]
  by (simp add: json_response_def signature_required_response_def)

text \<open>
  C6. For a response whose status code is not 200 and whose text contains the marker
  \<open>`signature` is required\<close>: a client without a secret key (\<open>None\<close> or empty) gets
  \<open>MissingSecretKey\<close>, a client with one gets \<open>ConnectionError\<close> carrying the response
  text.
\<close>

theorem check_response_missing_signature:
  assumes "status_code resp \<noteq> 200"
    and "contains ''`signature` is required'' (text_body resp)"
  shows "check_response c resp =
           (if truthy (secret_key c) then Inl (ConnectionError (text_body resp))
            else Inl MissingSecretKey)"
  using assms by (simp add: check_response_def)

theorem check_response_missing_signature_witness:
  "check_response plain_client signature_required_response = Inl MissingSecretKey \<and>
   check_response signing_client signature_required_response =
     Inl (ConnectionError (text_body signature_required_response))"
proof -
  have s: "status_code signature_required_response \<noteq> 200"
    by (simp add: signature_required_response_def)
  have m: "contains ''`signature` is required'' (text_body signature_required_response)"
    by (simp add: signature_required_response_def)
  show ?thesis
    using check_response_missing_signature [OF s m, of plain_client]
      check_response_missing_signature [OF s m, of signing_client]
    by (simp add: plain_client_def signing_client_def)
qed

section \<open>The \<open>expire\<close> precondition of \<open>upload\<close>, \<open>start_multipart\<close> and \<open>create_group\<close>\<close>

text \<open>
  C3. With a secret key set (not \<open>None\<close>, not empty), \<open>upload\<close>, \<open>start_multipart\<close> and
  \<open>create_group\<close> called without \<open>expire\<close> (the default \<open>None\<close>) raise \<open>MissingExpireKwarg\<close>,
  and the list of requests sent is the one the call started with: no request is made.
\<close>

theorem missing_expire_raises_before_request:
  assumes "truthy (secret_key c)"
  shows "upload env c input store metadata PNone kwargs w = Some (Inl MissingExpireKwarg, w) \<and>
         start_multipart env c filename nbytes PNone kwargs w = (Inl MissingExpireKwarg, w) \<and>
         create_group env c files PNone kwargs w = (Inl MissingExpireKwarg, w)"
  using assms by (simp add: upload_def start_multipart_def create_group_def)

theorem missing_expire_raises_before_request_witness:
  "upload (test_env []) signing_client ''photo.jpg'' (PStr ''auto'') None PNone [] [] =
     Some (Inl MissingExpireKwarg, []) \<and>
   start_multipart (test_env []) signing_client ''big.bin'' 1048576 PNone [] [] =
     (Inl MissingExpireKwarg, []) \<and>
   create_group (test_env []) signing_client [PStr ''UUID123''] PNone [] [] =
     (Inl MissingExpireKwarg, [])"
proof -
  have k: "truthy (secret_key signing_client)"
    by (simp add: signing_client_def)
  show ?thesis
    using missing_expire_raises_before_request [OF k, where env = "test_env []" and w = "[]"
        and kwargs = "[]" and input = "''photo.jpg''" and store = "PStr ''auto''"
        and metadata = None and filename = "''big.bin''" and nbytes = 1048576
        and files = "[PStr ''UUID123'']"]
    by simp
qed

text \<open>
  C10. The precondition tests the truth value of \<open>expire\<close>, not its presence: with a secret
  key set, an \<open>expire\<close> of \<open>0\<close>, \<open>0.0\<close> or the empty string, though passed by the caller,
  raises \<open>MissingExpireKwarg\<close> in \<open>upload\<close>, \<open>start_multipart\<close> and \<open>create_group\<close>.
\<close>

theorem falsy_expire_raises_missing_expire:
  assumes "truthy (secret_key c)"
    and "expire = PInt 0 \<or> expire = PFloat 0 \<or> expire = PStr []"
  shows "upload env c input store metadata expire kwargs w = Some (Inl MissingExpireKwarg, w) \<and>
         start_multipart env c filename nbytes expire kwargs w = (Inl MissingExpireKwarg, w) \<and>
         create_group env c files expire kwargs w = (Inl MissingExpireKwarg, w)"
  using assms by (auto simp add: upload_def start_multipart_def create_group_def)

theorem falsy_expire_raises_missing_expire_witness:
  "upload (test_env []) signing_client ''photo.jpg'' (PStr ''auto'') None (PInt 0) [] [] =
     Some (Inl MissingExpireKwarg, []) \<and>
   start_multipart (test_env []) signing_client ''big.bin'' 1048576 (PFloat 0) [] [] =
     (Inl MissingExpireKwarg, []) \<and>
   create_group (test_env []) signing_client [PStr ''UUID123''] (PStr []) [] [] =
     (Inl MissingExpireKwarg, [])"
proof -
  have k: "truthy (secret_key signing_client)"
    by (simp add: signing_client_def)
  have u: "upload (test_env []) signing_client ''photo.jpg'' (PStr ''auto'') None (PInt 0) [] [] =
      Some (Inl MissingExpireKwarg, [])"
    using falsy_expire_raises_missing_expire [OF k, where expire = "PInt 0"] by simp
  have s: "start_multipart (test_env []) signing_client ''big.bin'' 1048576 (PFloat 0) [] [] =
      (Inl MissingExpireKwarg, [])"
    using falsy_expire_raises_missing_expire [OF k, where expire = "PFloat 0"] by simp
  have g: "create_group (test_env []) signing_client [PStr ''UUID123''] (PStr []) [] [] =
      (Inl MissingExpireKwarg, [])"
    using falsy_expire_raises_missing_expire [OF k, where expire = "PStr []"] by simp
  show ?thesis
    using u s g by simp
qed


section \<open>Polling: \<open>check_status\<close>\<close>

lemma ncalls_append: "ncalls (w @ v) = ncalls w + ncalls v"
  by (simp add: ncalls_def)

lemma ncalls_poll: "ncalls (w @ [Call r, Sleep d]) = Suc (ncalls w)"
  by (simp add: ncalls_def)

lemma ncalls_pending_polls: "ncalls (pending_polls r n) = n"
  by (induction n) (simp_all add: pending_polls_def ncalls_def)

lemma pending_polls_Suc: "pending_polls r (Suc n) = [Call r, Sleep 0.5] @ pending_polls r n"
  by (simp add: pending_polls_def)

lemma check_status_loop_pending:
  assumes "still_pending (transport env (ncalls w) (status_request ep token))"
  shows "check_status_loop env ep token w =
         check_status_loop env ep token (w @ [Call (status_request ep token), Sleep 0.5])"
  using assms
  by (subst check_status_loop.simps)
    (auto simp add: requests_post_def time_sleep_def still_pending_def poll_status_def
      split: option.splits pyval.splits)

lemma check_status_loop_pending_polls:
  assumes "\<forall>k<n. still_pending (transport env (ncalls w + k) (status_request ep token))"
  shows "check_status_loop env ep token w =
         check_status_loop env ep token (w @ pending_polls (status_request ep token) n)"
  using assms
proof (induction n arbitrary: w)
  case 0
  show ?case by (simp add: pending_polls_def)
next
  case (Suc n)
  let ?r = "status_request ep token"
  let ?w = "w @ [Call ?r, Sleep 0.5]"
  have first: "still_pending (transport env (ncalls w) ?r)"
    using Suc.prems by (metis add.right_neutral zero_less_Suc)
  have rest: "\<forall>k<n. still_pending (transport env (ncalls ?w + k) ?r)"
  proof (intro allI impI)
    fix k assume "k < n"
    then have "Suc k < Suc n" by simp
    with Suc.prems have "still_pending (transport env (ncalls w + Suc k) ?r)" by blast
    then show "still_pending (transport env (ncalls ?w + k) ?r)" by (simp add: ncalls_poll)
  qed
  have "check_status_loop env ep token w = check_status_loop env ep token ?w"
    by (rule check_status_loop_pending [OF first])
  also have "\<dots> = check_status_loop env ep token (?w @ pending_polls ?r n)"
    by (rule Suc.IH [OF rest])
  finally show ?case by (simp add: pending_polls_Suc)
qed

lemma check_status_loop_terminal:
  assumes "json_body (transport env (ncalls w) (status_request ep token)) = Some (PDict d)"
    and "map_of d ''status'' = Some s"
    and "s = PStr ''success'' \<or> s = PStr ''error'' \<or> s = PStr ''unknown''"
  shows "check_status_loop env ep token w =
         Some (if s = PStr ''success''
               then Inr (transport env (ncalls w) (status_request ep token))
               else Inl (ConnectionError
                      (text_body (transport env (ncalls w) (status_request ep token)))),
               w @ [Call (status_request ep token)])"
  using assms
  by (subst check_status_loop.simps) (auto simp add: requests_post_def)

text \<open>
  C7. Let the first \<open>n\<close> polls of a token be answered with a status other than \<open>success\<close>,
  \<open>error\<close> and \<open>unknown\<close>, and the next one with the payload \<open>d\<close> of status \<open>s\<close>. If \<open>s\<close> is
  \<open>success\<close>, \<open>check_status\<close> returns the \<open>filename\<close> and \<open>uuid\<close> of \<open>d\<close>; if \<open>s\<close> is
  \<open>error\<close> or \<open>unknown\<close>, it raises \<open>ConnectionError\<close> with the text of that response. Either
  way it has sent \<open>n + 1\<close> polls, with a pause of 0.5 seconds after each of the first \<open>n\<close>,
  and nothing after the deciding one. For the statuses pending, pending, success that is
  3 polls and the result of the third.
\<close>

theorem check_status_polls_until_terminal:
  assumes pend: "\<forall>k<n. still_pending
             (transport env (ncalls w + k) (status_request (api_url c @ ''/from_url/status/'') token))"
    and body: "json_body
             (transport env (ncalls w + n) (status_request (api_url c @ ''/from_url/status/'') token)) =
           Some (PDict d)"
    and status: "map_of d ''status'' = Some s"
  shows "(s = PStr ''success'' \<and> map_of d ''filename'' = Some filename \<and> map_of d ''uuid'' = Some uuid \<longrightarrow>
            check_status env c token w =
              Some (Inr (filename, uuid),
                    w @ pending_polls (status_request (api_url c @ ''/from_url/status/'') token) n @
                      [Call (status_request (api_url c @ ''/from_url/status/'') token)])) \<and>
         (s = PStr ''error'' \<or> s = PStr ''unknown'' \<longrightarrow>
            check_status env c token w =
              Some (Inl (ConnectionError (text_body
                      (transport env (ncalls w + n)
                         (status_request (api_url c @ ''/from_url/status/'') token)))),
                    w @ pending_polls (status_request (api_url c @ ''/from_url/status/'') token) n @
                      [Call (status_request (api_url c @ ''/from_url/status/'') token)]))"
proof -
  let ?r = "status_request (api_url c @ ''/from_url/status/'') token"
  let ?w = "w @ pending_polls ?r n"
  have n: "ncalls ?w = ncalls w + n"
    by (simp add: ncalls_append ncalls_pending_polls)
  have loop: "check_status_loop env (api_url c @ ''/from_url/status/'') token w =
      check_status_loop env (api_url c @ ''/from_url/status/'') token ?w"
    by (rule check_status_loop_pending_polls [OF pend])
  have body': "json_body (transport env (ncalls ?w) ?r) = Some (PDict d)"
    using body by (simp add: n)
  show ?thesis
  proof (intro conjI impI)
    assume a: "s = PStr ''success'' \<and> map_of d ''filename'' = Some filename \<and> map_of d ''uuid'' = Some uuid"
    then have t: "s = PStr ''success'' \<or> s = PStr ''error'' \<or> s = PStr ''unknown''" by simp
    show "check_status env c token w = Some (Inr (filename, uuid), w @ pending_polls ?r n @ [Call ?r])"
      using a body
      by (simp add: check_status_def loop check_status_loop_terminal [OF body' status t] n
          wait_result_def)
  next
    assume a: "s = PStr ''error'' \<or> s = PStr ''unknown''"
    then have t: "s = PStr ''success'' \<or> s = PStr ''error'' \<or> s = PStr ''unknown''" by simp
    show "check_status env c token w =
        Some (Inl (ConnectionError (text_body (transport env (ncalls w + n) ?r))),
              w @ pending_polls ?r n @ [Call ?r])"
      using a
      by (auto simp add: check_status_def loop check_status_loop_terminal [OF body' status t] n)
  qed
qed


theorem check_status_polls_until_terminal_witness:
  "check_status (test_env [pending_response, pending_response, success_response]) plain_client
     (PStr ''TOKEN'') [] =
     Some (Inr (PStr ''a.png'', PStr ''U1''),
           [Call poll_request, Sleep 0.5, Call poll_request, Sleep 0.5, Call poll_request]) \<and>
   check_status (test_env [error_response, success_response]) plain_client (PStr ''TOKEN'') [] =
     Some (Inl (ConnectionError (text_body error_response)), [Call poll_request])"
proof -
  let ?ok = "test_env [pending_response, pending_response, success_response]"
  let ?bad = "test_env [error_response, success_response]"
  let ?d = "[(''status'', PStr ''success''), (''filename'', PStr ''a.png''), (''uuid'', PStr ''U1'')]"
  have r: "status_request (api_url plain_client @ ''/from_url/status/'') (PStr ''TOKEN'') =
      poll_request"
    by (simp add: poll_request_def plain_client_def)
  have p: "\<forall>k<2. still_pending (transport ?ok (ncalls [] + k)
      (status_request (api_url plain_client @ ''/from_url/status/'') (PStr ''TOKEN'')))"
    by (simp add: less_2_cases_iff test_env_def scripted_def ncalls_def still_pending_def
        poll_status_def pending_response_def json_response_def)
  have b: "json_body (transport ?ok (ncalls [] + 2)
      (status_request (api_url plain_client @ ''/from_url/status/'') (PStr ''TOKEN''))) =
      Some (PDict ?d)"
    by (simp add: test_env_def scripted_def ncalls_def success_response_def json_response_def)
  have s: "map_of ?d ''status'' = Some (PStr ''success'')"
    by simp
  have p0: "\<forall>k<0. still_pending (transport ?bad (ncalls [] + k)
      (status_request (api_url plain_client @ ''/from_url/status/'') (PStr ''TOKEN'')))"
    by simp
  have b0: "json_body (transport ?bad (ncalls [] + 0)
      (status_request (api_url plain_client @ ''/from_url/status/'') (PStr ''TOKEN''))) =
      Some (PDict [(''status'', PStr ''error'')])"
    by (simp add: test_env_def scripted_def ncalls_def error_response_def json_response_def)
  have s0: "map_of [(''status'', PStr ''error'')] ''status'' = Some (PStr ''error'')"
    by simp
  have t0: "transport ?bad (ncalls []) poll_request = error_response"
    by (simp add: test_env_def scripted_def ncalls_def)
  show ?thesis
    using check_status_polls_until_terminal [OF p b s, of "PStr ''a.png''" "PStr ''U1''"]
      check_status_polls_until_terminal [OF p0 b0 s0]
    by (simp add: r t0 pending_polls_def numeral_2_eq_2)
qed


section \<open>Request fields and the result of \<open>upload\<close>\<close>

lemma map_of_dict_update: "map_of (dict_update d items) = map_of d ++ map_of (rev items)"
  unfolding dict_update_def
proof (induction items arbitrary: d)
  case Nil
  show ?case by simp
next
  case (Cons x xs)
  obtain k v where x: "x = (k, v)" by (cases x)
  show ?case
    by (simp add: x Cons.IH update_conv' map_of_append fun_eq_iff map_add_def
        split: option.splits)
qed

lemma map_of_rev_distinct: "distinct (map fst xs) \<Longrightarrow> map_of (rev xs) = map_of xs"
proof (induction xs)
  case Nil
  show ?case by simp
next
  case (Cons x xs)
  obtain k v where x: "x = (k, v)" by (cases x)
  from Cons.prems have k: "k \<notin> fst ` set xs" and d: "distinct (map fst xs)"
    by (simp_all add: x)
  from k have "map_of xs k = None"
    by (simp add: map_of_eq_None_iff)
  then show ?case
    by (auto simp add: x Cons.IH [OF d] map_of_append fun_eq_iff map_add_def
        split: option.splits)
qed

lemma dict_update_lookup:
  "map_of (dict_update d items) k =
     (case map_of (rev items) k of None \<Rightarrow> map_of d k | Some v \<Rightarrow> Some v)"
  by (simp add: map_of_dict_update map_add_def)

lemma items_miss: "k \<notin> fst ` set items \<Longrightarrow> map_of (rev items) k = None"
  by (simp add: map_of_eq_None_iff)

lemma metadata_items_miss:
  "\<not> prefix ''metadata['' k \<Longrightarrow> map_of (rev (metadata_items metadata)) k = None"
  by (auto simp add: metadata_items_def map_of_eq_None_iff split: option.splits)

lemma files_items_miss:
  "\<not> prefix ''files['' k \<Longrightarrow> map_of (rev (files_items files)) k = None"
  by (auto simp add: files_items_def map_of_eq_None_iff)


lemma upload_data_unsigned:
  "upload_data env c is_url input store metadata expire kwargs = Inr data \<Longrightarrow>
   data = dict_update
            (if is_url
             then dict_update
                    (dict_update
                       [(''pub_key'', PStr (pub_key c)),
                        (''UPLOADCARE_STORE'', PStr (py_str env store))] kwargs)
                    [(''source_url'', PStr input)]
             else dict_update
                    [(''UPLOADCARE_PUB_KEY'', PStr (pub_key c)),
                     (''UPLOADCARE_STORE'', PStr (py_str env store))] kwargs)
            (metadata_items metadata)"
  by (auto simp add: upload_data_def Let_def secure_expire_signature_no_result
      split: if_splits sum.splits)

lemma create_group_data_unsigned:
  "create_group_data env c files expire kwargs = Inr data \<Longrightarrow>
   data = dict_update (dict_update [(''pub_key'', PStr (pub_key c))] kwargs) (files_items files)"
  by (auto simp add: create_group_data_def Let_def secure_expire_signature_no_result
      split: if_splits sum.splits)

text \<open>
  C4, amended. In every field set that \<open>upload\<close> or \<open>create_group\<close> builds, the extra fields
  are merged in verbatim (but for a name that \<open>source_url\<close>, a \<open>metadata[...]\<close> field of
  this call or a \<open>files[...]\<close> field of this call takes afterwards: an extra field named
  \<open>metadata[x]\<close> is kept when the metadata has no key \<open>x\<close>), and they come after the fixed
  fields of the dict
  display: where an extra field has the name of the public-key field or of the store
  flag, the request carries the extra field's value; otherwise it carries the client's
  public key and \<open>str(store)\<close>. The caller's \<open>kwargs\<close> is a dict, so its keys are distinct.
\<close>

theorem extra_fields_override_reserved:
  assumes keys: "distinct (map fst kwargs)"
  shows "(upload_data env c is_url input store metadata expire kwargs = Inr data \<longrightarrow>
            map_of data (if is_url then ''pub_key'' else ''UPLOADCARE_PUB_KEY'') =
              Some (case map_of kwargs (if is_url then ''pub_key'' else ''UPLOADCARE_PUB_KEY'') of
                      None \<Rightarrow> PStr (pub_key c)
                    | Some v \<Rightarrow> v) \<and>
            map_of data ''UPLOADCARE_STORE'' =
              Some (case map_of kwargs ''UPLOADCARE_STORE'' of
                      None \<Rightarrow> PStr (py_str env store)
                    | Some v \<Rightarrow> v) \<and>
            (\<forall>k v. map_of kwargs k = Some v \<and> k \<notin> fst ` set (metadata_items metadata) \<and>
                   \<not> (is_url \<and> k = ''source_url'') \<longrightarrow> map_of data k = Some v)) \<and>
         (create_group_data env c files expire kwargs = Inr gdata \<longrightarrow>
            map_of gdata ''pub_key'' =
              Some (case map_of kwargs ''pub_key'' of None \<Rightarrow> PStr (pub_key c) | Some v \<Rightarrow> v) \<and>
            (\<forall>k v. map_of kwargs k = Some v \<and> k \<notin> fst ` set (files_items files) \<longrightarrow>
                   map_of gdata k = Some v))"
proof (intro conjI impI)
  assume u: "upload_data env c is_url input store metadata expire kwargs = Inr data"
  note d = upload_data_unsigned [OF u]
  show "map_of data (if is_url then ''pub_key'' else ''UPLOADCARE_PUB_KEY'') =
      Some (case map_of kwargs (if is_url then ''pub_key'' else ''UPLOADCARE_PUB_KEY'') of
              None \<Rightarrow> PStr (pub_key c)
            | Some v \<Rightarrow> v)"
    by (cases is_url)
      (simp_all add: d dict_update_lookup metadata_items_miss map_of_rev_distinct [OF keys]
        split: option.splits)
  show "map_of data ''UPLOADCARE_STORE'' =
      Some (case map_of kwargs ''UPLOADCARE_STORE'' of
              None \<Rightarrow> PStr (py_str env store)
            | Some v \<Rightarrow> v)"
    by (cases is_url)
      (simp_all add: d dict_update_lookup metadata_items_miss map_of_rev_distinct [OF keys]
        split: option.splits)
  show "\<forall>k v. map_of kwargs k = Some v \<and> k \<notin> fst ` set (metadata_items metadata) \<and>
      \<not> (is_url \<and> k = ''source_url'') \<longrightarrow> map_of data k = Some v"
    by (cases is_url)
      (auto simp add: d dict_update_lookup items_miss map_of_rev_distinct [OF keys]
        split: option.splits)
next
  assume g: "create_group_data env c files expire kwargs = Inr gdata"
  note d = create_group_data_unsigned [OF g]
  show "map_of gdata ''pub_key'' =
      Some (case map_of kwargs ''pub_key'' of None \<Rightarrow> PStr (pub_key c) | Some v \<Rightarrow> v)"
    by (simp add: d dict_update_lookup files_items_miss map_of_rev_distinct [OF keys]
        split: option.splits)
  show "\<forall>k v. map_of kwargs k = Some v \<and> k \<notin> fst ` set (files_items files) \<longrightarrow>
      map_of gdata k = Some v"
    by (auto simp add: d dict_update_lookup items_miss map_of_rev_distinct [OF keys]
        split: option.splits)
qed

lemma upload_with_expire_sends_nothing:
  "truthy expire \<Longrightarrow> \<exists>e. upload env c P store metadata expire kwargs w = Some (Inl e, w)"
  by (auto simp add: upload_def Let_def upload_data_def secure_expire_signature_no_result
      split: sum.splits prod.splits)

text \<open>
  C8. For an existing file \<open>P\<close>, uploaded without signing (no secret key, no \<open>expire\<close>; with
  an \<open>expire\<close> no request is ever sent, see \<open>upload_with_expire_sends_nothing\<close>): when the
  answer to the upload request has status 200 and a payload that maps \<open>file\<close> to the string
  \<open>U\<close>, \<open>upload\<close> returns \<open>https://ucarecdn.com/U/B\<close> with \<open>B = Path(P).name\<close>, the final
  component of \<open>P\<close> (\<open>path_name_final_component\<close>), after that one request.
\<close>

theorem upload_local_file_cdn_url:
  assumes exists: "filesystem env P = Some (File fdata)"
    and unsigned: "\<not> truthy (secret_key c)" "\<not> truthy expire"
    and data: "upload_data env c False P store metadata expire kwargs = Inr data"
    and res: "transport env (ncalls w)
                (upload_request env False (api_url c @ ''/base/'') data (path_name P) fdata) = res"
    and ok: "status_code res = 200" "json_body res = Some (PDict d)"
      "map_of d ''file'' = Some (PStr U)"
  shows "upload env c P store metadata expire kwargs w =
           Some (Inr (''https://ucarecdn.com/'' @ U @ ''/'' @ path_name P),
                 w @ [Call (upload_request env False (api_url c @ ''/base/'') data (path_name P)
                         fdata)])"
  using assms
  by (simp add: upload_def input_identity_def read_file_def requests_post_def
      check_response_def upload_result_def cdn_url_def Let_def)


lemma split_path_not_Nil: "split_path p \<noteq> []"
  by (induction p) (auto split: list.splits)

lemma split_path_no_slash: "CHR ''/'' \<notin> set b \<Longrightarrow> split_path b = [b]"
  by (induction b) auto

lemma split_path_append:
  "split_path (dir @ CHR ''/'' # b) = split_path dir @ split_path b"
proof (induction dir)
  case Nil
  show ?case by simp
next
  case (Cons c cs)
  obtain p ps where s: "split_path cs = p # ps"
    using split_path_not_Nil [of cs] by (cases "split_path cs") auto
  show ?case
    by (simp add: Cons.IH s)
qed

lemma path_name_final_component:
  assumes "CHR ''/'' \<notin> set b" and "b \<noteq> []" and "b \<noteq> ''.''"
  shows "path_name b = b" and "path_name (dir @ ''/'' @ b) = b"
  using assms
  by (simp_all add: path_name_def path_parts_def split_path_append split_path_no_slash)

text \<open>
  C4, as stated, fails: the extra field \<open>UPLOADCARE_STORE = '0'\<close> passed to \<open>upload\<close> replaces
  the store flag \<open>'auto'\<close> in the request that is sent, and the extra field
  \<open>pub_key = 'otherkey'\<close> passed to \<open>create_group\<close> replaces the client's public key.
\<close>

theorem extra_field_overrides_store_flag:
  "upload (test_env [json_response [(''file'', PStr ''UUID123'')]]) plain_client ''photo.jpg''
     (PStr ''auto'') None PNone [(''UPLOADCARE_STORE'', PStr ''0'')] [] =
     Some (Inr ''https://ucarecdn.com/UUID123/photo.jpg'',
       [Call \<lparr>req_method = ''POST'', req_url = ''https://upload.uploadcare.com/base/'',
              req_data = [(''UPLOADCARE_PUB_KEY'', PStr ''demopublickey''),
                          (''UPLOADCARE_STORE'', PStr ''0'')],
              req_files = [(''file'', ''photo.jpg'', [0xff, 0xd8, 0xff], Some ''image/jpeg'')]\<rparr>]) \<and>
   create_group (test_env [json_response [(''id'', PStr ''GROUP1'')]]) plain_client
     [PStr ''UUID123''] PNone [(''pub_key'', PStr ''otherkey'')] [] =
     (Inr (PDict [(''id'', PStr ''GROUP1'')]),
       [Call \<lparr>req_method = ''POST'', req_url = ''https://upload.uploadcare.com/group/'',
              req_data = [(''pub_key'', PStr ''otherkey''), (''files[0]'', PStr ''UUID123'')],
              req_files = []\<rparr>])"
  by (simp add: upload_def create_group_def create_group_data_def files_items_def
      upload_data_def upload_request_def upload_result_def input_identity_def read_file_def
      requests_post_def check_response_def cdn_url_def metadata_items_def dict_update_def
      path_name_def path_parts_def test_env_def scripted_def json_response_def
      plain_client_def ncalls_def Let_def digit_chars.simps str_int_def digit_char_def)

theorem extra_fields_override_reserved_witness:
  "upload_data (test_env []) plain_client False ''photo.jpg'' (PStr ''auto'')
     (Some [(''author'', PStr ''me'')]) PNone
     [(''UPLOADCARE_STORE'', PStr ''0''), (''metadata[note]'', PStr ''kept'')] =
     Inr [(''UPLOADCARE_PUB_KEY'', PStr ''demopublickey''), (''UPLOADCARE_STORE'', PStr ''0''),
          (''metadata[note]'', PStr ''kept''), (''metadata[author]'', PStr ''me'')] \<and>
   map_of [(''UPLOADCARE_PUB_KEY'', PStr ''demopublickey''), (''UPLOADCARE_STORE'', PStr ''0''),
           (''metadata[note]'', PStr ''kept''), (''metadata[author]'', PStr ''me'')]
     ''UPLOADCARE_STORE'' = Some (PStr ''0'') \<and>
   map_of [(''UPLOADCARE_PUB_KEY'', PStr ''demopublickey''), (''UPLOADCARE_STORE'', PStr ''0''),
           (''metadata[note]'', PStr ''kept''), (''metadata[author]'', PStr ''me'')]
     ''metadata[note]'' = Some (PStr ''kept'') \<and>
   create_group_data (test_env []) plain_client [PStr ''UUID123''] PNone
     [(''pub_key'', PStr ''otherkey'')] =
     Inr [(''pub_key'', PStr ''otherkey''), (''files[0]'', PStr ''UUID123'')] \<and>
   map_of [(''pub_key'', PStr ''otherkey''), (''files[0]'', PStr ''UUID123'')] ''pub_key'' =
     Some (PStr ''otherkey'')"
proof -
  let ?kw = "[(''UPLOADCARE_STORE'', PStr ''0''), (''metadata[note]'', PStr ''kept'')]"
  let ?md = "Some [(''author'', PStr ''me'')]"
  let ?D = "[(''UPLOADCARE_PUB_KEY'', PStr ''demopublickey''), (''UPLOADCARE_STORE'', PStr ''0''),
             (''metadata[note]'', PStr ''kept''), (''metadata[author]'', PStr ''me'')]"
  have k1: "distinct (map fst ?kw)"
    by simp
  have k2: "distinct (map fst [(''pub_key'', PStr ''otherkey'')])"
    by simp
  have u: "upload_data (test_env []) plain_client False ''photo.jpg'' (PStr ''auto'') ?md PNone ?kw =
      Inr ?D"
    by (simp add: upload_data_def metadata_items_def dict_update_def plain_client_def Let_def)
  have n: "''metadata[note]'' \<notin> fst ` set (metadata_items ?md)"
    by (simp add: metadata_items_def)
  have g: "create_group_data (test_env []) plain_client [PStr ''UUID123''] PNone
      [(''pub_key'', PStr ''otherkey'')] =
      Inr [(''pub_key'', PStr ''otherkey''), (''files[0]'', PStr ''UUID123'')]"
    by (simp add: create_group_data_def files_items_def dict_update_def plain_client_def Let_def
        digit_chars.simps str_int_def digit_char_def)
  show ?thesis
    using extra_fields_override_reserved [OF k1, of "test_env []" plain_client False
        "''photo.jpg''" "PStr ''auto''" ?md PNone ?D] n
      extra_fields_override_reserved [OF k2, where env = "test_env []" and c = plain_client
        and files = "[PStr ''UUID123'']" and expire = PNone
        and gdata = "[(''pub_key'', PStr ''otherkey''), (''files[0]'', PStr ''UUID123'')]"]
    by (simp add: u g)
qed

theorem upload_local_file_cdn_url_witness:
  "upload (test_env [json_response [(''file'', PStr ''UUID123'')]]) plain_client ''photo.jpg''
     (PStr ''auto'') None PNone [] [] =
     Some (Inr ''https://ucarecdn.com/UUID123/photo.jpg'',
       [Call \<lparr>req_method = ''POST'', req_url = ''https://upload.uploadcare.com/base/'',
              req_data = [(''UPLOADCARE_PUB_KEY'', PStr ''demopublickey''),
                          (''UPLOADCARE_STORE'', PStr ''auto'')],
              req_files = [(''file'', ''photo.jpg'', [0xff, 0xd8, 0xff], Some ''image/jpeg'')]\<rparr>])"
proof -
  let ?env = "test_env [json_response [(''file'', PStr ''UUID123'')]]"
  let ?data = "[(''UPLOADCARE_PUB_KEY'', PStr ''demopublickey''), (''UPLOADCARE_STORE'', PStr ''auto'')]"
  have f: "filesystem ?env ''photo.jpg'' = Some (File [0xff, 0xd8, 0xff])"
    by (simp add: test_env_def)
  have k: "\<not> truthy (secret_key plain_client)"
    by (simp add: plain_client_def)
  have e: "\<not> truthy PNone"
    by simp
  have d: "upload_data ?env plain_client False ''photo.jpg'' (PStr ''auto'') None PNone [] = Inr ?data"
    by (simp add: upload_data_def metadata_items_def dict_update_def plain_client_def Let_def)
  have r: "transport ?env (ncalls [])
      (upload_request ?env False (api_url plain_client @ ''/base/'') ?data (path_name ''photo.jpg'')
         [0xff, 0xd8, 0xff]) = json_response [(''file'', PStr ''UUID123'')]"
    by (simp add: test_env_def scripted_def ncalls_def)
  have s: "status_code (json_response [(''file'', PStr ''UUID123'')]) = 200"
    by (simp add: json_response_def)
  have j: "json_body (json_response [(''file'', PStr ''UUID123'')]) =
      Some (PDict [(''file'', PStr ''UUID123'')])"
    by (simp add: json_response_def)
  have m: "map_of [(''file'', PStr ''UUID123'')] ''file'' = Some (PStr ''UUID123'')"
    by simp
  have n: "path_name ''photo.jpg'' = ''photo.jpg''"
    by (simp add: path_name_def path_parts_def)
  show ?thesis
    using upload_local_file_cdn_url [OF f k e d r s j m]
    by (simp add: n upload_request_def test_env_def plain_client_def)
qed


end
